theory Spec2Isabelle
  imports Main
begin

section \<open>The service locator of go-sl (sl.go)\<close>

text \<open>
  The package keeps two Go maps inside a \<^verbatim>\<open>ServiceLocator\<close>: \<^verbatim>\<open>providers\<close>, from slot
  tokens to pointers to \<^verbatim>\<open>slotEntry\<close> objects, and \<^verbatim>\<open>hooks\<close>, from hook tokens to pointers
  to \<^verbatim>\<open>hookEntry\<close> objects. Lazy constructors and hook listeners are Go closures that
  receive the locator and may call back into the package, so every operation is modelled
  as a function on an explicit state that also holds everything else a closure can
  touch.
\<close>

subsection \<open>Go values, types and tokens\<close>

text \<open>
  A value of Go's interface type \<^verbatim>\<open>any\<close> is either the nil interface or a dynamic value
  (dynamic type and data) of the universe \<open>'v\<close>. A value of a static type \<^verbatim>\<open>T\<close> is
  represented by its conversion to \<^verbatim>\<open>any\<close>, which is how the package stores it.
\<close>

datatype 'v any = Nil | Dyn 'v

text \<open>
  The type parameter \<^verbatim>\<open>T\<close> of the generic functions. The source uses it in three ways:
  \<^verbatim>\<open>getTypeName[T]()\<close> (the label of \<^verbatim>\<open>T\<close>), \<^verbatim>\<open>zero[T]()\<close> (the zero value of \<^verbatim>\<open>T\<close>) and the
  type assertion \<^verbatim>\<open>x.(T)\<close>. \<open>tyId\<close> is the identity of the type, part of the dynamic type
  \<^verbatim>\<open>slot[T]\<close> of a token. \<open>tyHolds T d\<close> says that a dynamic value \<open>d\<close> has type \<^verbatim>\<open>T\<close>
  (\<^verbatim>\<open>T\<close> concrete) or implements \<^verbatim>\<open>T\<close> (\<^verbatim>\<open>T\<close> an interface type).
\<close>

record 'v gotype =
  tyId :: nat
  tyName :: string
  tyZero :: "'v any"
  tyHolds :: "'v \<Rightarrow> bool"

text \<open>\<^verbatim>\<open>func getTypeName[T any]() string\<close>\<close>

definition getTypeName :: "'v gotype \<Rightarrow> string" where
  "getTypeName T = tyName T"

text \<open>
  The type assertion \<^verbatim>\<open>x.(T)\<close> on \<^verbatim>\<open>x\<close> of type \<^verbatim>\<open>any\<close>. In Go it never holds for the nil
  interface, whatever \<^verbatim>\<open>T\<close> is.
\<close>

fun typeAssert :: "'v gotype \<Rightarrow> 'v any \<Rightarrow> bool" where
  "typeAssert T Nil = False"
| "typeAssert T (Dyn d) = tyHolds T d"

text \<open>
  The values a Go variable of static type \<^verbatim>\<open>T\<close> can hold: those the assertion accepts
  and, when \<^verbatim>\<open>T\<close> is an interface type (its zero value is the nil interface), nil.
\<close>

definition valueOf :: "'v gotype \<Rightarrow> 'v any \<Rightarrow> bool" where
  "valueOf T v = (typeAssert T v \<or> (v = Nil \<and> tyZero T = Nil))"

type_synonym addr = nat

text \<open>
  \<^verbatim>\<open>type slot[T any] *struct{}\<close> and \<^verbatim>\<open>type hook[T any] *struct{}\<close>. Tokens are used as keys of
  maps with key type \<^verbatim>\<open>any\<close>: two keys are equal when their dynamic types (the
  instantiation of \<^verbatim>\<open>slot\<close> or \<^verbatim>\<open>hook\<close>) and their pointers are equal.
\<close>

datatype token = Token (tokType: nat) (tokPtr: addr)

text \<open>
  \<^verbatim>\<open>NewSlot\<close> and \<^verbatim>\<open>NewHook\<close> return \<^verbatim>\<open>new(struct{})\<close>. The allocator is Go's, not the
  package's: it is the parameter \<open>new\<close>, which takes the size of the object and the
  allocator's state, and returns the address and the new state. Nothing is assumed of it:
  Go leaves open whether pointers to distinct zero-size variables are equal.
\<close>

definition NewSlot :: "(nat \<Rightarrow> 'm \<Rightarrow> addr \<times> 'm) \<Rightarrow> 'v gotype \<Rightarrow> 'm \<Rightarrow> token \<times> 'm" where
  "NewSlot new T m = (case new 0 m of (p, m') \<Rightarrow> (Token (tyId T) p, m'))"


subsection \<open>Errors, panics and outcomes\<close>

text \<open>
  A non-nil \<^verbatim>\<open>error\<close>: one made by \<^verbatim>\<open>fmt.Errorf\<close> inside the package (its message), or any
  error of the callers' own. A nil \<^verbatim>\<open>error\<close> is \<open>None\<close>.
\<close>

datatype 'e goerror = Errorf string | UserError 'e

datatype 'e panicv =
    NilDereference
  | InterfaceConversion
  | PanicString string
  | PanicError "'e goerror"

text \<open>A call returns, panics (with the state reached when it panicked) or never returns.\<close>

datatype ('a, 's, 'e) outcome =
    Returns (result: 'a) (final: 's)
  | Panics (panicValue: "'e panicv") (final: 's)
  | Diverges

subsection \<open>The registry\<close>

text \<open>
  Function values are references \<open>funcref\<close>; what calling one does is given by the
  parameters \<open>cf\<close> (constructors, \<^verbatim>\<open>func(*ServiceLocator) (T, error)\<close>) and \<open>hf\<close> (listeners,
  \<^verbatim>\<open>func(*ServiceLocator, T) error\<close>) of the operations below.
\<close>

type_synonym funcref = nat

text \<open>
  \<^verbatim>\<open>type slotEntry struct\<close>. \<open>configureFunc\<close> holds the \<^verbatim>\<open>createFunc\<close> captured by the wrapper
  closure that \<^verbatim>\<open>ProvideFunc\<close> stores; \<open>None\<close> is the nil function of an entry made by
  \<^verbatim>\<open>Provide\<close>. The field \<^verbatim>\<open>value\<close> is \<open>entryValue\<close>.
\<close>

record 'v slotEntry =
  typeName :: string
  configureFunc :: "funcref option"
  configured :: bool
  entryValue :: "'v any"

text \<open>
  A listener stored by \<^verbatim>\<open>ProvideHook\<close>: the closure
  \<^verbatim>\<open>func(l, a) { t, ok := a.(T); if !ok { panic(`illegal state`) }; return ll(l, t) }\<close>,
  which captures \<^verbatim>\<open>T\<close> and the typed listener \<^verbatim>\<open>ll\<close>.
\<close>

datatype 'v anyListener = AnyListener "'v gotype" funcref

text \<open>\<^verbatim>\<open>type hookEntry struct\<close>; its field \<^verbatim>\<open>typeName\<close> is \<open>hookTypeName\<close>.\<close>

record 'v hookEntry =
  hookTypeName :: string
  listeners :: "'v anyListener list"

text \<open>The lines \<^verbatim>\<open>Logger.Printf\<close> writes, each with the arguments of its format.\<close>

datatype 'v logline =
    LogProvided string "'v any"
  | LogInjectLazy string
  | LogConfigured string "'v any"
  | LogInjectingHooks string
  | LogCallingHook string "'v any"

text \<open>
  The state: the two maps of the \<^verbatim>\<open>ServiceLocator\<close>, the store of \<^verbatim>\<open>slotEntry\<close> objects
  that \<^verbatim>\<open>providers\<close> points into (\<open>slotHeap\<close>, with \<open>nextAddr\<close> the next fresh address), the
  output of \<^verbatim>\<open>Logger\<close>, and \<open>world\<close>, everything else the closures read and write. A
  \<^verbatim>\<open>hookEntry\<close> is never written after \<^verbatim>\<open>ProvideHook\<close> made it, so \<open>hooks\<close> holds the
  entries themselves.
\<close>

record ('v, 'w) state =
  providers :: "token \<rightharpoonup> addr"
  slotHeap :: "addr \<Rightarrow> 'v slotEntry"
  nextAddr :: addr
  hooks :: "token \<rightharpoonup> 'v hookEntry"
  logged :: "'v logline list"
  world :: 'w

text \<open>\<^verbatim>\<open>Logger.Printf(...)\<close>\<close>

definition logPrintf :: "'v logline \<Rightarrow> ('v, 'w) state \<Rightarrow> ('v, 'w) state" where
  "logPrintf ln s = s\<lparr>logged := logged s @ [ln]\<rparr>"

text \<open>\<^verbatim>\<open>func New() *ServiceLocator\<close>, in a world \<open>w\<close>.\<close>

definition New :: "'w \<Rightarrow> ('v, 'w) state" where
  "New w = \<lparr>providers = Map.empty, slotHeap = (\<lambda>_. \<lparr>typeName = [], configureFunc = None,
     configured = False, entryValue = Nil\<rparr>), nextAddr = 0, hooks = Map.empty, logged = [],
     world = w\<rparr>"

text \<open>\<^verbatim>\<open>l.providers[slotKey] = &slotEntry{...}\<close>: a fresh object, and the key bound to it.\<close>

definition storeEntry :: "token \<Rightarrow> 'v slotEntry \<Rightarrow> ('v, 'w) state \<Rightarrow> ('v, 'w) state" where
  "storeEntry slotKey e s =
     s\<lparr>slotHeap := (slotHeap s)(nextAddr s := e),
       providers := (providers s)(slotKey \<mapsto> nextAddr s),
       nextAddr := Suc (nextAddr s)\<rparr>"

subsection \<open>Slots\<close>

text \<open>\<^verbatim>\<open>func Provide[T any](l *ServiceLocator, slotKey slot[T], value T) T\<close>\<close>

definition Provide :: "'v gotype \<Rightarrow> token \<Rightarrow> 'v any \<Rightarrow> ('v, 'w) state \<Rightarrow> 'v any \<times> ('v, 'w) state" where
  "Provide T slotKey v s =
     (v, storeEntry slotKey
           \<lparr>typeName = getTypeName T, configureFunc = None, configured = True, entryValue = v\<rparr>
           (logPrintf (LogProvided (getTypeName T) v) s))"

text \<open>\<^verbatim>\<open>func ProvideFunc[T any](l *ServiceLocator, slotKey slot[T], createFunc func(*ServiceLocator) (T, error))\<close>\<close>

definition ProvideFunc :: "'v gotype \<Rightarrow> token \<Rightarrow> funcref \<Rightarrow> ('v, 'w) state \<Rightarrow> ('v, 'w) state" where
  "ProvideFunc T slotKey createFunc s =
     storeEntry slotKey
       \<lparr>typeName = getTypeName T, configureFunc = Some createFunc, configured = False,
        entryValue = Nil\<rparr>
       (logPrintf (LogInjectLazy (getTypeName T)) s)"

text \<open>
  What a constructor returns: the pair \<^verbatim>\<open>(T, error)\<close>. The operations below return, next
  to the outcome, the list of the functions they called themselves, in call order (the
  call sites \<^verbatim>\<open>s.configureFunc(l)\<close> and \<^verbatim>\<open>ll(l, t)\<close>); calls made inside a called function
  belong to that function's behaviour.
\<close>

type_synonym ('v, 'w, 'e) ctors =
  "funcref \<Rightarrow> ('v, 'w) state \<Rightarrow> ('v any \<times> 'e goerror option, ('v, 'w) state, 'e) outcome"

text \<open>
  The success branch of \<^verbatim>\<open>ensureConfigured\<close>: the log line, then
  \<^verbatim>\<open>s.configured = true; s.value = v\<close>, written to the object at address \<open>a\<close>.
\<close>

definition markConfigured :: "addr \<Rightarrow> 'v any \<Rightarrow> ('v, 'w) state \<Rightarrow> ('v, 'w) state" where
  "markConfigured a v s =
     (let s' = logPrintf (LogConfigured (typeName (slotHeap s a)) v) s
      in s'\<lparr>slotHeap := (slotHeap s')
                (a := (slotHeap s' a)\<lparr>configured := True, entryValue := v\<rparr>)\<rparr>)"

text \<open>
  \<^verbatim>\<open>func (s *slotEntry) ensureConfigured(l *ServiceLocator) error\<close>, with the receiver the
  object at address \<open>a\<close>. The receiver was read from the map before the constructor ran,
  so the writes go to that object wherever the key points afterwards.
\<close>

definition ensureConfigured ::
  "('v, 'w, 'e) ctors \<Rightarrow> addr \<Rightarrow> ('v, 'w) state
     \<Rightarrow> funcref list \<times> ('e goerror option, ('v, 'w) state, 'e) outcome" where
  "ensureConfigured cf a s =
     (if \<not> configured (slotHeap s a) then
        (case configureFunc (slotHeap s a) of
           None \<Rightarrow> ([], Panics NilDereference s)
         | Some f \<Rightarrow>
             ([f],
              case cf f s of
                Returns (v, Some err) s' \<Rightarrow> Returns (Some err) s'
              | Returns (v, None) s' \<Rightarrow> Returns None (markConfigured a v s')
              | Panics p s' \<Rightarrow> Panics p s'
              | Diverges \<Rightarrow> Diverges))
      else ([], Returns None s))"

text \<open>\<^verbatim>\<open>func useSlotValue[T any](l *ServiceLocator, slotKey slot[T]) (T, error)\<close>\<close>

definition useSlotValue ::
  "('v, 'w, 'e) ctors \<Rightarrow> 'v gotype \<Rightarrow> token \<Rightarrow> ('v, 'w) state
     \<Rightarrow> funcref list \<times> ('v any \<times> 'e goerror option, ('v, 'w) state, 'e) outcome" where
  "useSlotValue cf T slotKey s =
     (case providers s slotKey of
        None \<Rightarrow>
          ([], Returns (tyZero T, Some (Errorf (''no injected value for type '' @ getTypeName T))) s)
      | Some a \<Rightarrow>
          (case ensureConfigured cf a s of
             (tr, Returns (Some err) s') \<Rightarrow> (tr, Returns (tyZero T, Some err) s')
           | (tr, Returns None s') \<Rightarrow>
               (tr, if typeAssert T (entryValue (slotHeap s' a))
                    then Returns (entryValue (slotHeap s' a), None) s'
                    else Panics InterfaceConversion s')
           | (tr, Panics p s') \<Rightarrow> (tr, Panics p s')
           | (tr, Diverges) \<Rightarrow> (tr, Diverges)))"

text \<open>\<^verbatim>\<open>func Use[T any](l *ServiceLocator, slotKey slot[T]) (T, error)\<close>\<close>

definition Use ::
  "('v, 'w, 'e) ctors \<Rightarrow> 'v gotype \<Rightarrow> token \<Rightarrow> ('v, 'w) state
     \<Rightarrow> funcref list \<times> ('v any \<times> 'e goerror option, ('v, 'w) state, 'e) outcome" where
  "Use cf T slotKey s =
     (case useSlotValue cf T slotKey s of
        (tr, Returns (v, Some err) s') \<Rightarrow> (tr, Returns (tyZero T, Some err) s')
      | (tr, Returns (v, None) s') \<Rightarrow> (tr, Returns (v, None) s')
      | (tr, Panics p s') \<Rightarrow> (tr, Panics p s')
      | (tr, Diverges) \<Rightarrow> (tr, Diverges))"

text \<open>\<^verbatim>\<open>func MustUse[T any](l *ServiceLocator, slotKey slot[T]) T\<close>\<close>

definition MustUse ::
  "('v, 'w, 'e) ctors \<Rightarrow> 'v gotype \<Rightarrow> token \<Rightarrow> ('v, 'w) state
     \<Rightarrow> funcref list \<times> ('v any, ('v, 'w) state, 'e) outcome" where
  "MustUse cf T slotKey s =
     (case useSlotValue cf T slotKey s of
        (tr, Returns (v, Some err) s') \<Rightarrow> (tr, Panics (PanicError err) s')
      | (tr, Returns (v, None) s') \<Rightarrow> (tr, Returns v s')
      | (tr, Panics p s') \<Rightarrow> (tr, Panics p s')
      | (tr, Diverges) \<Rightarrow> (tr, Diverges))"

text \<open>\<^verbatim>\<open>func Invoke[T any](l *ServiceLocator, slotKey slot[T]) error\<close>\<close>

definition Invoke ::
  "('v, 'w, 'e) ctors \<Rightarrow> 'v gotype \<Rightarrow> token \<Rightarrow> ('v, 'w) state
     \<Rightarrow> funcref list \<times> ('e goerror option, ('v, 'w) state, 'e) outcome" where
  "Invoke cf T slotKey s =
     (case useSlotValue cf T slotKey s of
        (tr, Returns (v, Some err) s') \<Rightarrow> (tr, Returns (Some err) s')
      | (tr, Returns (v, None) s') \<Rightarrow> (tr, Returns None s')
      | (tr, Panics p s') \<Rightarrow> (tr, Panics p s')
      | (tr, Diverges) \<Rightarrow> (tr, Diverges))"

text \<open>\<^verbatim>\<open>func MustInvoke[T any](l *ServiceLocator, slotKey slot[T])\<close>\<close>

definition MustInvoke ::
  "('v, 'w, 'e) ctors \<Rightarrow> 'v gotype \<Rightarrow> token \<Rightarrow> ('v, 'w) state
     \<Rightarrow> funcref list \<times> (unit, ('v, 'w) state, 'e) outcome" where
  "MustInvoke cf T slotKey s =
     (case useSlotValue cf T slotKey s of
        (tr, Returns (v, Some err) s') \<Rightarrow> (tr, Panics (PanicError err) s')
      | (tr, Returns (v, None) s') \<Rightarrow> (tr, Returns () s')
      | (tr, Panics p s') \<Rightarrow> (tr, Panics p s')
      | (tr, Diverges) \<Rightarrow> (tr, Diverges))"

subsection \<open>Hooks\<close>

text \<open>\<^verbatim>\<open>func ProvideHook[T any](l *ServiceLocator, hookKey hook[T], listeners ...Hook[T])\<close>\<close>

definition ProvideHook ::
  "'v gotype \<Rightarrow> token \<Rightarrow> funcref list \<Rightarrow> ('v, 'w) state \<Rightarrow> ('v, 'w) state" where
  "ProvideHook T hookKey ls s =
     (let s' = logPrintf (LogInjectingHooks (getTypeName T)) s;
          anyListeners = map (AnyListener T) ls
      in s'\<lparr>hooks := (hooks s')(hookKey \<mapsto>
               \<lparr>hookTypeName = getTypeName T, listeners = anyListeners\<rparr>)\<rparr>)"

type_synonym ('v, 'w, 'e) hookfuns =
  "funcref \<Rightarrow> 'v any \<Rightarrow> ('v, 'w) state \<Rightarrow> ('e goerror option, ('v, 'w) state, 'e) outcome"

text \<open>Calling one stored listener on \<^verbatim>\<open>(l, a)\<close>.\<close>

fun callListener ::
  "('v, 'w, 'e) hookfuns \<Rightarrow> 'v anyListener \<Rightarrow> 'v any \<Rightarrow> ('v, 'w) state
     \<Rightarrow> funcref list \<times> ('e goerror option, ('v, 'w) state, 'e) outcome" where
  "callListener hf (AnyListener T ll) a s =
     (if \<not> typeAssert T a then ([], Panics (PanicString ''illegal state'') s)
      else ([ll], hf ll a s))"

text \<open>
  The loop \<^verbatim>\<open>for _, hookFunc := range hookEntry.listeners\<close> of \<^verbatim>\<open>UseHook\<close>, from the listeners
  still to call.
\<close>

fun rangeListeners ::
  "('v, 'w, 'e) hookfuns \<Rightarrow> 'v anyListener list \<Rightarrow> 'v any \<Rightarrow> ('v, 'w) state
     \<Rightarrow> funcref list \<times> ('e goerror option, ('v, 'w) state, 'e) outcome" where
  "rangeListeners hf [] a s = ([], Returns None s)"
| "rangeListeners hf (hookFunc # rest) a s =
     (case callListener hf hookFunc a s of
        (tr, Returns (Some err) s') \<Rightarrow> (tr, Returns (Some err) s')
      | (tr, Returns None s') \<Rightarrow>
          (case rangeListeners hf rest a s' of (tr', r) \<Rightarrow> (tr @ tr', r))
      | (tr, Panics p s') \<Rightarrow> (tr, Panics p s')
      | (tr, Diverges) \<Rightarrow> (tr, Diverges))"

text \<open>
  \<^verbatim>\<open>func UseHook[T any](l *ServiceLocator, hookKey hook[T], value T) error\<close>. When the key is
  missing, \<^verbatim>\<open>hookEntry\<close> is nil and the argument \<^verbatim>\<open>hookEntry.typeName\<close> of \<^verbatim>\<open>fmt.Errorf\<close> is
  evaluated first.
\<close>

definition UseHook ::
  "('v, 'w, 'e) hookfuns \<Rightarrow> 'v gotype \<Rightarrow> token \<Rightarrow> 'v any \<Rightarrow> ('v, 'w) state
     \<Rightarrow> funcref list \<times> ('e goerror option, ('v, 'w) state, 'e) outcome" where
  "UseHook hf T hookKey v s =
     (case hooks s hookKey of
        None \<Rightarrow> ([], Panics NilDereference s)
      | Some hookEntry \<Rightarrow>
          rangeListeners hf (listeners hookEntry) v
            (logPrintf (LogCallingHook (hookTypeName hookEntry) v) s))"

text \<open>\<^verbatim>\<open>func MustUseHook[T any](l *ServiceLocator, hookKey hook[T], value T)\<close>\<close>

definition MustUseHook ::
  "('v, 'w, 'e) hookfuns \<Rightarrow> 'v gotype \<Rightarrow> token \<Rightarrow> 'v any \<Rightarrow> ('v, 'w) state
     \<Rightarrow> funcref list \<times> (unit, ('v, 'w) state, 'e) outcome" where
  "MustUseHook hf T hookKey v s =
     (case UseHook hf T hookKey v s of
        (tr, Returns (Some err) s') \<Rightarrow> (tr, Panics (PanicError err) s')
      | (tr, Returns None s') \<Rightarrow> (tr, Returns () s')
      | (tr, Panics p s') \<Rightarrow> (tr, Panics p s')
      | (tr, Diverges) \<Rightarrow> (tr, Diverges))"

subsection \<open>Example programs\<close>

text \<open>
  A small universe of dynamic values, the concrete type \<^verbatim>\<open>int\<close>, the interface type
  \<^verbatim>\<open>error\<close> (implemented by \<open>ErrV\<close> values, zero value nil), and one token of each type.
\<close>

datatype dynval = IntV int | ErrV string

definition intT :: "dynval gotype" where
  "intT = \<lparr>tyId = 0, tyName = ''int'', tyZero = Dyn (IntV 0),
            tyHolds = (\<lambda>d. case d of IntV i \<Rightarrow> True | ErrV m \<Rightarrow> False)\<rparr>"

definition errorT :: "dynval gotype" where
  "errorT = \<lparr>tyId = 1, tyName = ''error'', tyZero = Nil,
              tyHolds = (\<lambda>d. case d of IntV i \<Rightarrow> False | ErrV m \<Rightarrow> True)\<rparr>"

definition intSlot :: token where
  "intSlot = Token 0 0"

definition errorSlot :: token where
  "errorSlot = Token 1 0"

text \<open>
  Constructors of type \<^verbatim>\<open>func(*ServiceLocator) (int, error)\<close>; the world is a counter that
  each of them increments when it runs.
  \<^item> 0: \<^verbatim>\<open>counter++; return 7, nil\<close>
  \<^item> 1: \<^verbatim>\<open>counter++; return 0, errors.New("boom")\<close>
  \<^item> 2: \<^verbatim>\<open>counter++; sl.ProvideFunc(l, intSlot, itself); return 7, nil\<close>
  \<^item> 3: \<^verbatim>\<open>counter++; sl.Provide(l, intSlot, 5); return 0, errors.New("boom")\<close>
\<close>

definition exampleCtors :: "(dynval, nat, string) ctors" where
  "exampleCtors f s =
     (if f = 0 then Returns (Dyn (IntV 7), None) (s\<lparr>world := Suc (world s)\<rparr>)
      else if f = 1 then
        Returns (Dyn (IntV 0), Some (UserError ''boom'')) (s\<lparr>world := Suc (world s)\<rparr>)
      else if f = 2 then
        Returns (Dyn (IntV 7), None) (ProvideFunc intT intSlot 2 (s\<lparr>world := Suc (world s)\<rparr>))
      else if f = 3 then
        Returns (Dyn (IntV 0), Some (UserError ''boom''))
          (snd (Provide intT intSlot (Dyn (IntV 5)) (s\<lparr>world := Suc (world s)\<rparr>)))
      else Diverges)"


text \<open>
  A constructor that uses its own slot the first time it runs:
  \<^verbatim>\<open>counter++; if counter == 1 { sl.Use(l, intSlot); return 7, nil }; return 5, nil\<close>.
  \<open>selfUseLater\<close> is a run that finds the counter above 0, \<open>selfUseCtors\<close> any run. The
  nested \<^verbatim>\<open>Use\<close> starts with the counter at 1, where every run is of the first kind
  (\<open>selfUseCtors_nested\<close> below).
\<close>

definition selfUseLater :: "(dynval, nat, string) ctors" where
  "selfUseLater f s = Returns (Dyn (IntV 5), None) (s\<lparr>world := Suc (world s)\<rparr>)"

definition selfUseCtors :: "(dynval, nat, string) ctors" where
  "selfUseCtors f s =
     (if world s = 0 then
        (case snd (Use selfUseLater intT intSlot (s\<lparr>world := Suc 0\<rparr>)) of
           Returns r s' \<Rightarrow> Returns (Dyn (IntV 7), None) s'
         | Panics p s' \<Rightarrow> Panics p s'
         | Diverges \<Rightarrow> Diverges)
      else selfUseLater f s)"

text \<open>
  Listeners of type \<^verbatim>\<open>func(*ServiceLocator, error) error\<close>; the world is the list of the
  listeners that have run, in order. Listener 1 fails, the others succeed.
\<close>

definition exampleHooks :: "(dynval, nat list, string) hookfuns" where
  "exampleHooks f a s =
     (if f = 1 then Returns (Some (UserError ''stop'')) (s\<lparr>world := world s @ [f]\<rparr>)
      else Returns None (s\<lparr>world := world s @ [f]\<rparr>))"

definition errorHook :: token where
  "errorHook = Token 1 0"

text \<open>
  \<open>allSucceed hf a ls s s'\<close>: called one after the other on the payload \<open>a\<close>, starting in
  state \<open>s\<close>, the typed listeners \<open>ls\<close> all return a nil error, and leave the state \<open>s'\<close>.
\<close>

inductive allSucceed ::
  "('v, 'w, 'e) hookfuns \<Rightarrow> 'v any \<Rightarrow> funcref list \<Rightarrow> ('v, 'w) state \<Rightarrow> ('v, 'w) state \<Rightarrow> bool"
  for hf :: "('v, 'w, 'e) hookfuns" and a :: "'v any" where
  allSucceed_Nil: "allSucceed hf a [] s s"
| allSucceed_Cons:
    "hf ll a s = Returns None s' \<Longrightarrow> allSucceed hf a rest s' s'' \<Longrightarrow> allSucceed hf a (ll # rest) s s''"

section \<open>Properties\<close>

subsection \<open>Auxiliary facts\<close>

lemma ensureConfigured_lazy:
  assumes "\<not> configured (slotHeap s a)" and "configureFunc (slotHeap s a) = Some c"
  shows "ensureConfigured cf a s =
     ([c], case cf c s of
             Returns (v, Some err) s' \<Rightarrow> Returns (Some err) s'
           | Returns (v, None) s' \<Rightarrow> Returns None (markConfigured a v s')
           | Panics p s' \<Rightarrow> Panics p s'
           | Diverges \<Rightarrow> Diverges)"
  using assms by (simp add: ensureConfigured_def)

lemma ensureConfigured_configured:
  "configured (slotHeap s a) \<Longrightarrow> ensureConfigured cf a s = ([], Returns None s)"
  by (simp add: ensureConfigured_def)

lemma markConfigured_simps:
  "providers (markConfigured a v s) = providers s"
  "hooks (markConfigured a v s) = hooks s"
  "world (markConfigured a v s) = world s"
  "nextAddr (markConfigured a v s) = nextAddr s"
  "configured (slotHeap (markConfigured a v s) a)"
  "entryValue (slotHeap (markConfigured a v s) a) = v"
  by (simp_all add: markConfigured_def logPrintf_def Let_def)

lemma ProvideFunc_simps:
  "providers (ProvideFunc T k c s) k = Some (nextAddr s)"
  "slotHeap (ProvideFunc T k c s) (nextAddr s) =
     \<lparr>typeName = getTypeName T, configureFunc = Some c, configured = False, entryValue = Nil\<rparr>"
  by (simp_all add: ProvideFunc_def storeEntry_def logPrintf_def)

lemma Use_lazy:
  assumes "providers s slotKey = Some a"
    and "\<not> configured (slotHeap s a)" and "configureFunc (slotHeap s a) = Some c"
  shows "Use cf T slotKey s =
           ([c], case cf c s of
                   Returns (v', Some err') s2 \<Rightarrow> Returns (tyZero T, Some err') s2
                 | Returns (v', None) s2 \<Rightarrow>
                     if typeAssert T v'
                     then Returns (v', None) (markConfigured a v' s2)
                     else Panics InterfaceConversion (markConfigured a v' s2)
                 | Panics p s2 \<Rightarrow> Panics p s2
                 | Diverges \<Rightarrow> Diverges)"
proof (cases "cf c s")
  case (Returns r s2)
  obtain v' e' where r: "r = (v', e')" by (cases r)
  show ?thesis
    using assms Returns r
    by (cases e') (simp_all add: Use_def useSlotValue_def ensureConfigured_lazy markConfigured_simps)
next
  case (Panics p s2)
  then show ?thesis
    using assms by (simp add: Use_def useSlotValue_def ensureConfigured_lazy)
next
  case Diverges
  then show ?thesis
    using assms by (simp add: Use_def useSlotValue_def ensureConfigured_lazy)
qed

lemma world_simps:
  "world (ProvideFunc T k c s) = world s"
  "world (snd (Provide T k v s)) = world s"
  "world (ProvideHook T k ls s) = world s"
  "world (New w) = w"
  by (simp_all add: ProvideFunc_def Provide_def ProvideHook_def storeEntry_def logPrintf_def
      New_def Let_def)

lemma hooks_ProvideHook:
  "hooks (ProvideHook T hookKey ls s) hookKey
     = Some \<lparr>hookTypeName = getTypeName T, listeners = map (AnyListener T) ls\<rparr>"
  by (simp add: ProvideHook_def logPrintf_def Let_def)

lemma Use_configured:
  assumes "providers s slotKey = Some a" and "configured (slotHeap s a)"
    and "typeAssert T (entryValue (slotHeap s a))"
  shows "Use cf T slotKey s = ([], Returns (entryValue (slotHeap s a), None) s)"
    and "MustUse cf T slotKey s = ([], Returns (entryValue (slotHeap s a)) s)"
    and "Invoke cf T slotKey s = ([], Returns None s)"
  using assms
  by (simp_all add: Use_def MustUse_def Invoke_def useSlotValue_def ensureConfigured_configured)


lemmas operations =
  Use_def useSlotValue_def ensureConfigured_def markConfigured_def ProvideFunc_def Provide_def
  storeEntry_def logPrintf_def New_def getTypeName_def

subsection \<open>Resolution of slots\<close>

text \<open>
  C5. For a slot token with no entry in the registry, \<^verbatim>\<open>Use\<close> returns the zero value of
  \<^verbatim>\<open>T\<close> together with the error "no injected value for type ...", \<^verbatim>\<open>Invoke\<close> returns that
  error, no function is called, and the state (registry included) is returned unchanged.
\<close>

theorem Use_not_registered:
  assumes "providers s slotKey = None"
  shows "Use cf T slotKey s =
           ([], Returns (tyZero T, Some (Errorf (''no injected value for type '' @ getTypeName T))) s)
       \<and> Invoke cf T slotKey s =
           ([], Returns (Some (Errorf (''no injected value for type '' @ getTypeName T))) s)"
  using assms by (simp add: Use_def Invoke_def useSlotValue_def)

theorem Use_not_registered_witness:
  "Use exampleCtors intT intSlot (New 0) =
     ([], Returns (tyZero intT, Some (Errorf (''no injected value for type '' @ getTypeName intT)))
            (New 0))
   \<and> Invoke exampleCtors intT intSlot (New 0) =
     ([], Returns (Some (Errorf (''no injected value for type '' @ getTypeName intT))) (New 0))"
proof -
  have "providers (New 0 :: (dynval, nat) state) intSlot = None"
    by (simp add: New_def)
  from Use_not_registered [where cf = exampleCtors and T = intT, OF this]
  show ?thesis .
qed




text \<open>
  The constructor must not run again inside its own run either. The self-using
  constructor returns 7 and leaves the key bound as it was, and both \<^verbatim>\<open>Use\<close> calls return
  7, the second without any call; but the nested \<^verbatim>\<open>Use\<close> ran the constructor a second time
  (the counter ends at 2) and the entry held 5 before it held 7.
\<close>

lemma selfUseCtors_nested:
  "Use selfUseCtors intT intSlot (s\<lparr>world := Suc 0\<rparr>)
     = Use selfUseLater intT intSlot (s\<lparr>world := Suc 0\<rparr>)"
proof -
  have "selfUseCtors f (s\<lparr>world := Suc 0\<rparr>) = selfUseLater f (s\<lparr>world := Suc 0\<rparr>)" for f
    by (simp add: selfUseCtors_def)
  then have "ensureConfigured selfUseCtors a (s\<lparr>world := Suc 0\<rparr>)
      = ensureConfigured selfUseLater a (s\<lparr>world := Suc 0\<rparr>)" for a
    by (simp add: ensureConfigured_def split: option.splits)
  then show ?thesis
    by (simp add: Use_def useSlotValue_def split: option.splits)
qed

lemma self_using_constructor_runs_twice:
  "selfUseCtors 4 (ProvideFunc intT intSlot 4 (New 0))
     = Returns (Dyn (IntV 7), None)
         (markConfigured 0 (Dyn (IntV 5)) ((ProvideFunc intT intSlot 4 (New 0))\<lparr>world := 2\<rparr>))
   \<and> providers (markConfigured 0 (Dyn (IntV 5))
         ((ProvideFunc intT intSlot 4 (New 0 :: (dynval, nat) state))\<lparr>world := 2\<rparr>)) intSlot
       = providers (ProvideFunc intT intSlot 4 (New 0 :: (dynval, nat) state)) intSlot
   \<and> fst (Use selfUseCtors intT intSlot (ProvideFunc intT intSlot 4 (New 0))) = [4]
   \<and> result (snd (Use selfUseCtors intT intSlot (ProvideFunc intT intSlot 4 (New 0))))
       = (Dyn (IntV 7), None)
   \<and> Use selfUseCtors intT intSlot
        (final (snd (Use selfUseCtors intT intSlot (ProvideFunc intT intSlot 4 (New 0)))))
       = ([], Returns (Dyn (IntV 7), None)
            (final (snd (Use selfUseCtors intT intSlot (ProvideFunc intT intSlot 4 (New 0))))))
   \<and> world (final (snd (Use selfUseCtors intT intSlot (ProvideFunc intT intSlot 4 (New 0))))) = 2"
  by (simp add: operations selfUseCtors_def selfUseLater_def intT_def intSlot_def numeral_2_eq_2)

text \<open>
  C3, as amended. A slot is registered lazily with \<^verbatim>\<open>ProvideFunc\<close>. If its constructor, run
  by \<^verbatim>\<open>Use\<close>, returns a non-nil error and leaves the slot's registration as it found it (the
  key bound to the same entry, the entry untouched), then \<^verbatim>\<open>Use\<close> returns the zero value
  with that very error and ends in the state the constructor left: the entry is still
  unconfigured and holds no value. A second \<^verbatim>\<open>Use\<close> calls the constructor again and treats
  its result as a first call would.
\<close>

theorem Use_constructor_failure:
  assumes fails: "cf c (ProvideFunc T slotKey c s) = Returns (v, Some err) s1"
    and kept: "providers s1 slotKey = providers (ProvideFunc T slotKey c s) slotKey"
    and same: "slotHeap s1 (nextAddr s) = slotHeap (ProvideFunc T slotKey c s) (nextAddr s)"
  shows "Use cf T slotKey (ProvideFunc T slotKey c s) = ([c], Returns (tyZero T, Some err) s1)
       \<and> \<not> configured (slotHeap s1 (nextAddr s))
       \<and> entryValue (slotHeap s1 (nextAddr s)) = Nil
       \<and> Use cf T slotKey s1 =
           ([c], case cf c s1 of
                   Returns (v', Some err') s2 \<Rightarrow> Returns (tyZero T, Some err') s2
                 | Returns (v', None) s2 \<Rightarrow>
                     if typeAssert T v'
                     then Returns (v', None) (markConfigured (nextAddr s) v' s2)
                     else Panics InterfaceConversion (markConfigured (nextAddr s) v' s2)
                 | Panics p s2 \<Rightarrow> Panics p s2
                 | Diverges \<Rightarrow> Diverges)"
proof -
  let ?s0 = "ProvideFunc T slotKey c s"
  let ?a = "nextAddr s"
  have e1: "ensureConfigured cf ?a ?s0 = ([c], Returns (Some err) s1)"
    using fails by (simp add: ensureConfigured_lazy ProvideFunc_simps)
  have first: "Use cf T slotKey ?s0 = ([c], Returns (tyZero T, Some err) s1)"
    using e1 by (simp add: Use_def useSlotValue_def ProvideFunc_simps)
  have entry: "slotHeap s1 ?a =
      \<lparr>typeName = getTypeName T, configureFunc = Some c, configured = False, entryValue = Nil\<rparr>"
    using same by (simp add: ProvideFunc_simps)
  have p1: "providers s1 slotKey = Some ?a"
    using kept by (simp add: ProvideFunc_simps)
  have second: "Use cf T slotKey s1 =
           ([c], case cf c s1 of
                   Returns (v', Some err') s2 \<Rightarrow> Returns (tyZero T, Some err') s2
                 | Returns (v', None) s2 \<Rightarrow>
                     if typeAssert T v'
                     then Returns (v', None) (markConfigured ?a v' s2)
                     else Panics InterfaceConversion (markConfigured ?a v' s2)
                 | Panics p s2 \<Rightarrow> Panics p s2
                 | Diverges \<Rightarrow> Diverges)"
    by (rule Use_lazy [OF p1]) (simp_all add: entry)
  from first entry second show ?thesis by simp
qed

theorem Use_constructor_failure_witness:
  "Use exampleCtors intT intSlot (ProvideFunc intT intSlot 1 (New 0))
     = ([1], Returns (tyZero intT, Some (UserError ''boom''))
               ((ProvideFunc intT intSlot 1 (New 0))\<lparr>world := Suc 0\<rparr>))
   \<and> \<not> configured (slotHeap ((ProvideFunc intT intSlot 1 (New 0 :: (dynval, nat) state))\<lparr>world := Suc 0\<rparr>)
           (nextAddr (New 0 :: (dynval, nat) state)))
   \<and> entryValue (slotHeap ((ProvideFunc intT intSlot 1 (New 0 :: (dynval, nat) state))\<lparr>world := Suc 0\<rparr>)
           (nextAddr (New 0 :: (dynval, nat) state))) = Nil
   \<and> Use exampleCtors intT intSlot ((ProvideFunc intT intSlot 1 (New 0))\<lparr>world := Suc 0\<rparr>)
     = ([1], Returns (tyZero intT, Some (UserError ''boom''))
               ((ProvideFunc intT intSlot 1 (New 0))\<lparr>world := Suc (Suc 0)\<rparr>))"
proof -
  let ?s0 = "ProvideFunc intT intSlot 1 (New 0) :: (dynval, nat) state"
  let ?s1 = "?s0\<lparr>world := Suc 0\<rparr>"
  have fails: "exampleCtors 1 ?s0 = Returns (Dyn (IntV 0), Some (UserError ''boom'')) ?s1"
    by (simp add: exampleCtors_def world_simps)
  have kept: "providers ?s1 intSlot = providers ?s0 intSlot"
    by simp
  have same: "slotHeap ?s1 (nextAddr (New 0 :: (dynval, nat) state))
      = slotHeap ?s0 (nextAddr (New 0 :: (dynval, nat) state))"
    by simp
  have again: "exampleCtors 1 ?s1
      = Returns (Dyn (IntV 0), Some (UserError ''boom'')) (?s0\<lparr>world := Suc (Suc 0)\<rparr>)"
    by (simp add: exampleCtors_def)
  from Use_constructor_failure [where cf = exampleCtors and c = 1 and T = intT,
      OF fails kept same]
  show ?thesis unfolding again outcome.case prod.case option.case .
qed

text \<open>
  C3 as stated fails. Constructor 3 provides a value for its own slot and then fails: the
  error is returned, but the slot is now configured, and the second \<^verbatim>\<open>Use\<close> returns 5
  without calling the constructor.
\<close>

theorem Use_constructor_failure_counterexample:
  "exampleCtors 3 (ProvideFunc intT intSlot 3 (New 0))
     = Returns (Dyn (IntV 0), Some (UserError ''boom''))
         (snd (Provide intT intSlot (Dyn (IntV 5))
            ((ProvideFunc intT intSlot 3 (New 0))\<lparr>world := Suc 0\<rparr>)))
   \<and> fst (Use exampleCtors intT intSlot (ProvideFunc intT intSlot 3 (New 0))) = [3]
   \<and> result (snd (Use exampleCtors intT intSlot (ProvideFunc intT intSlot 3 (New 0))))
       = (Dyn (IntV 0), Some (UserError ''boom''))
   \<and> fst (Use exampleCtors intT intSlot
        (final (snd (Use exampleCtors intT intSlot (ProvideFunc intT intSlot 3 (New 0)))))) = []
   \<and> result (snd (Use exampleCtors intT intSlot
        (final (snd (Use exampleCtors intT intSlot (ProvideFunc intT intSlot 3 (New 0)))))))
       = (Dyn (IntV 5), None)"
  by (simp add: operations exampleCtors_def intT_def intSlot_def)

text \<open>
  What holds of configured entries: when the stored value passes the type assertion,
  \<^verbatim>\<open>Use\<close>, \<^verbatim>\<open>MustUse\<close> and \<^verbatim>\<open>Invoke\<close> return it (or a nil error), call no function and leave
  the state as it is (\<open>Use_configured\<close> above); so does \<^verbatim>\<open>Use\<close> right after \<^verbatim>\<open>Provide\<close>.
\<close>

lemma Provide_simps:
  "fst (Provide T k v s) = v"
  "providers (snd (Provide T k v s)) k = Some (nextAddr s)"
  "slotHeap (snd (Provide T k v s)) (nextAddr s) =
     \<lparr>typeName = getTypeName T, configureFunc = None, configured = True, entryValue = v\<rparr>"
  by (simp_all add: Provide_def storeEntry_def logPrintf_def)

lemma Provide_then_Use:
  assumes "typeAssert T v"
  shows "Use cf T slotKey (snd (Provide T slotKey v s))
           = ([], Returns (v, None) (snd (Provide T slotKey v s)))"
  using assms Use_configured(1) [where s = "snd (Provide T slotKey v s)" and a = "nextAddr s"
      and slotKey = slotKey and T = T and cf = cf]
  by (simp add: Provide_simps)

text \<open>
  C7. The claim holds for every value that passes the type assertion (\<open>Provide_then_Use\<close>).
  It fails for the nil value of an interface type: \<^verbatim>\<open>Provide\<close> stores and returns nil, and
  the \<^verbatim>\<open>Use\<close> that follows panics in \<^verbatim>\<open>slot.value.(T)\<close>, an assertion that Go never grants to
  a nil interface.
\<close>

theorem Provide_nil_interface_then_Use_panics:
  "valueOf errorT Nil
   \<and> fst (Provide errorT errorSlot Nil (New 0)) = Nil
   \<and> Use exampleCtors errorT errorSlot (snd (Provide errorT errorSlot Nil (New 0)))
       = ([], Panics InterfaceConversion (snd (Provide errorT errorSlot Nil (New 0))))"
  by (simp add: valueOf_def errorT_def Use_def useSlotValue_def ensureConfigured_def Provide_def
      storeEntry_def logPrintf_def New_def)

text \<open>
  C9. The claim holds for configured entries whose value passes the type assertion
  (\<open>Use_configured\<close>). For the entry that \<^verbatim>\<open>Provide\<close> made from the nil value of an interface
  type, which is configured, \<^verbatim>\<open>MustUse\<close> and \<^verbatim>\<open>Invoke\<close> panic in the same type assertion
  instead of returning; the state is untouched.
\<close>

theorem configured_nil_interface_panics:
  "providers (snd (Provide errorT errorSlot Nil (New 0 :: (dynval, nat) state))) errorSlot = Some 0
   \<and> configured (slotHeap (snd (Provide errorT errorSlot Nil (New 0 :: (dynval, nat) state))) 0)
   \<and> MustUse exampleCtors errorT errorSlot (snd (Provide errorT errorSlot Nil (New 0)))
       = ([], Panics InterfaceConversion (snd (Provide errorT errorSlot Nil (New 0))))
   \<and> Invoke exampleCtors errorT errorSlot (snd (Provide errorT errorSlot Nil (New 0)))
       = ([], Panics InterfaceConversion (snd (Provide errorT errorSlot Nil (New 0))))"
  by (simp add: errorT_def MustUse_def Invoke_def useSlotValue_def ensureConfigured_def Provide_def
      storeEntry_def logPrintf_def New_def)

subsection \<open>Hooks\<close>

text \<open>
  C4. The claim asks for an ordinary error when the hook token has no entry. The code
  evaluates \<^verbatim>\<open>hookEntry.typeName\<close> on the nil entry while building that error, and panics
  with a nil pointer dereference: here on a fresh registry.
\<close>

theorem UseHook_not_registered_panics:
  "UseHook exampleHooks errorT errorHook (Dyn (ErrV ''payload'')) (New [])
     = ([], Panics NilDereference (New []))"
  by (simp add: UseHook_def New_def)

text \<open>
  C6. After two \<^verbatim>\<open>ProvideHook\<close> calls on the same token, the hook entry holds exactly the
  listeners of the second call, in its order; the map of hooks is the one a single call
  with the second list would have left.
\<close>

theorem ProvideHook_replaces:
  "hooks (ProvideHook T hookKey ls2 (ProvideHook T hookKey ls1 s)) hookKey
     = Some \<lparr>hookTypeName = getTypeName T, listeners = map (AnyListener T) ls2\<rparr>
   \<and> hooks (ProvideHook T hookKey ls2 (ProvideHook T hookKey ls1 s))
     = hooks (ProvideHook T hookKey ls2 s)"
  by (simp add: ProvideHook_def logPrintf_def Let_def)

text \<open>
  C10. When the entry of a hook token has no listeners, \<^verbatim>\<open>UseHook\<close> returns a nil error for
  any payload, calls no function, and changes nothing but the log: both maps, the slot
  entries and the world are as before.
\<close>

theorem UseHook_no_listeners:
  assumes "hooks s hookKey = Some he" and "listeners he = []"
  shows "UseHook hf T hookKey v s
           = ([], Returns None (logPrintf (LogCallingHook (hookTypeName he) v) s))
       \<and> providers (logPrintf (LogCallingHook (hookTypeName he) v) s) = providers s
       \<and> slotHeap (logPrintf (LogCallingHook (hookTypeName he) v) s) = slotHeap s
       \<and> nextAddr (logPrintf (LogCallingHook (hookTypeName he) v) s) = nextAddr s
       \<and> hooks (logPrintf (LogCallingHook (hookTypeName he) v) s) = hooks s
       \<and> world (logPrintf (LogCallingHook (hookTypeName he) v) s) = world s"
  using assms by (simp add: UseHook_def logPrintf_def)

theorem UseHook_no_listeners_witness:
  "UseHook exampleHooks errorT errorHook Nil (ProvideHook errorT errorHook [] (New []))
     = ([], Returns None
         (logPrintf (LogCallingHook (hookTypeName \<lparr>hookTypeName = getTypeName errorT,
            listeners = ([] :: dynval anyListener list)\<rparr>) Nil)
            (ProvideHook errorT errorHook [] (New []))))
   \<and> providers (logPrintf (LogCallingHook (hookTypeName \<lparr>hookTypeName = getTypeName errorT,
            listeners = ([] :: dynval anyListener list)\<rparr>) Nil)
            (ProvideHook errorT errorHook [] (New [] :: (dynval, nat list) state)))
       = providers (ProvideHook errorT errorHook [] (New [] :: (dynval, nat list) state))
   \<and> slotHeap (logPrintf (LogCallingHook (hookTypeName \<lparr>hookTypeName = getTypeName errorT,
            listeners = ([] :: dynval anyListener list)\<rparr>) Nil)
            (ProvideHook errorT errorHook [] (New [] :: (dynval, nat list) state)))
       = slotHeap (ProvideHook errorT errorHook [] (New [] :: (dynval, nat list) state))
   \<and> nextAddr (logPrintf (LogCallingHook (hookTypeName \<lparr>hookTypeName = getTypeName errorT,
            listeners = ([] :: dynval anyListener list)\<rparr>) Nil)
            (ProvideHook errorT errorHook [] (New [] :: (dynval, nat list) state)))
       = nextAddr (ProvideHook errorT errorHook [] (New [] :: (dynval, nat list) state))
   \<and> hooks (logPrintf (LogCallingHook (hookTypeName \<lparr>hookTypeName = getTypeName errorT,
            listeners = ([] :: dynval anyListener list)\<rparr>) Nil)
            (ProvideHook errorT errorHook [] (New [] :: (dynval, nat list) state)))
       = hooks (ProvideHook errorT errorHook [] (New [] :: (dynval, nat list) state))
   \<and> world (logPrintf (LogCallingHook (hookTypeName \<lparr>hookTypeName = getTypeName errorT,
            listeners = ([] :: dynval anyListener list)\<rparr>) Nil)
            (ProvideHook errorT errorHook [] (New [] :: (dynval, nat list) state)))
       = world (ProvideHook errorT errorHook [] (New [] :: (dynval, nat list) state))"
proof -
  let ?s = "ProvideHook errorT errorHook [] (New []) :: (dynval, nat list) state"
  let ?he = "\<lparr>hookTypeName = getTypeName errorT, listeners = ([] :: dynval anyListener list)\<rparr>"
  have reg: "hooks ?s errorHook = Some ?he"
    by (simp add: hooks_ProvideHook)
  have none: "listeners ?he = []"
    by simp
  from UseHook_no_listeners [where hf = exampleHooks and T = errorT and v = Nil,
      OF reg none]
  show ?thesis .
qed

text \<open>
  What holds of dispatch when the payload passes the type assertion: the listeners run in
  registration order; when all return a nil error so does \<^verbatim>\<open>UseHook\<close>, and at the first
  that returns an error \<^verbatim>\<open>UseHook\<close> returns that error, in the state reached, without
  calling the listeners after it.
\<close>

lemma rangeListeners_all_succeed:
  assumes "allSucceed hf a ls s s'" and "typeAssert T a"
  shows "rangeListeners hf (map (AnyListener T) ls) a s = (ls, Returns None s')"
  using assms by (induction rule: allSucceed.induct) simp_all

lemma rangeListeners_first_failure:
  assumes "allSucceed hf a pre s s'" and "typeAssert T a"
    and "hf ll a s' = Returns (Some err) s''"
  shows "rangeListeners hf (map (AnyListener T) (pre @ ll # post)) a s
           = (pre @ [ll], Returns (Some err) s'')"
  using assms by (induction rule: allSucceed.induct) simp_all

lemma UseHook_all_succeed:
  assumes "typeAssert T v"
    and "allSucceed hf v ls
           (logPrintf (LogCallingHook (getTypeName T) v) (ProvideHook T hookKey ls s)) s'"
  shows "UseHook hf T hookKey v (ProvideHook T hookKey ls s) = (ls, Returns None s')"
  using assms by (simp add: UseHook_def hooks_ProvideHook rangeListeners_all_succeed)

lemma UseHook_first_failure:
  assumes "typeAssert T v"
    and "allSucceed hf v pre
           (logPrintf (LogCallingHook (getTypeName T) v) (ProvideHook T hookKey (pre @ ll # post) s)) s'"
    and "hf ll v s' = Returns (Some err) s''"
  shows "UseHook hf T hookKey v (ProvideHook T hookKey (pre @ ll # post) s)
           = (pre @ [ll], Returns (Some err) s'')"
proof -
  have "rangeListeners hf (map (AnyListener T) (pre @ ll # post)) v
          (logPrintf (LogCallingHook (getTypeName T) v) (ProvideHook T hookKey (pre @ ll # post) s))
        = (pre @ [ll], Returns (Some err) s'')"
    by (rule rangeListeners_first_failure [OF assms(2) assms(1) assms(3)])
  then show ?thesis
    by (simp add: UseHook_def hooks_ProvideHook del: map_append list.map)
qed

lemma UseHook_example_stops_at_failure:
  "fst (UseHook exampleHooks errorT errorHook (Dyn (ErrV ''x''))
          (ProvideHook errorT errorHook [0, 1, 2] (New []))) = [0, 1]
   \<and> result (snd (UseHook exampleHooks errorT errorHook (Dyn (ErrV ''x''))
          (ProvideHook errorT errorHook [0, 1, 2] (New [])))) = Some (UserError ''stop'')
   \<and> world (final (snd (UseHook exampleHooks errorT errorHook (Dyn (ErrV ''x''))
          (ProvideHook errorT errorHook [0, 1, 2] (New []))))) = [0, 1]"
  by (simp add: errorT_def UseHook_def ProvideHook_def logPrintf_def New_def Let_def
      getTypeName_def exampleHooks_def)

text \<open>
  C2. The claim holds for payloads that pass the type assertion (\<open>UseHook_all_succeed\<close>,
  \<open>UseHook_first_failure\<close>). It fails for the nil payload of an interface type: the
  wrapper that \<^verbatim>\<open>ProvideHook\<close> put around the first listener panics with "illegal state",
  and no listener is called.
\<close>

theorem UseHook_nil_interface_payload_panics:
  "valueOf errorT Nil
   \<and> UseHook exampleHooks errorT errorHook Nil (ProvideHook errorT errorHook [0, 1, 2] (New []))
       = ([], Panics (PanicString ''illegal state'')
                (logPrintf (LogCallingHook ''error'' Nil)
                   (ProvideHook errorT errorHook [0, 1, 2] (New []))))"
  by (simp add: valueOf_def errorT_def UseHook_def ProvideHook_def logPrintf_def New_def Let_def
      getTypeName_def)

subsection \<open>Tokens\<close>


text \<open>
  When the allocator returns one pointer for both, a value provided under the first token
  is what \<^verbatim>\<open>Use\<close> returns under the second.
\<close>

lemma equal_pointers_share_entry:
  assumes "fst (new 0 m) = fst (new 0 m')" and "typeAssert T v"
  shows "Use cf T (fst (NewSlot new T m')) (snd (Provide T (fst (NewSlot new T m)) v s))
           = ([], Returns (v, None) (snd (Provide T (fst (NewSlot new T m)) v s)))"
proof -
  have "fst (NewSlot new T m') = fst (NewSlot new T m)"
    using assms(1) by (cases "new 0 m"; cases "new 0 m'") (simp add: NewSlot_def)
  then show ?thesis
    using Provide_then_Use [OF assms(2)] by simp
qed

end
